theory Spec2Isabelle
  imports Main "HOL-Library.Word"
begin

section \<open>JavaScript values\<close>

text \<open>
  The request body is what \<^verbatim>\<open>express.json()\<close> parsed, so every field the handlers
  destructure is a JSON value or \<^verbatim>\<open>undefined\<close>. A number is carried as the text
  JavaScript prints for it (\<^verbatim>\<open>String(n)\<close>): the handlers only test numbers for
  truthiness and interpolate them into template literals, and the one falsy number
  that \<^verbatim>\<open>JSON.parse\<close> can produce is zero, printed \<^verbatim>\<open>0\<close>.
\<close>

datatype jsval =
    JUndefined
  | JNull
  | JBool bool
  | JNum string
  | JStr string
  | JArr "jsval list"
  | JObj "(string \<times> jsval) list"

text \<open>\<^verbatim>\<open>!v\<close> is \<open>\<not> truthy v\<close>.\<close>

fun truthy :: "jsval \<Rightarrow> bool" where
  "truthy JUndefined = False"
| "truthy JNull = False"
| "truthy (JBool b) = b"
| "truthy (JNum s) = (s \<noteq> ''0'')"
| "truthy (JStr s) = (s \<noteq> [])"
| "truthy (JArr xs) = True"
| "truthy (JObj kvs) = True"

text \<open>\<^verbatim>\<open>Array.isArray(v)\<close>, and the elements \<^verbatim>\<open>v.length\<close> counts.\<close>

fun isArray :: "jsval \<Rightarrow> bool" where
  "isArray (JArr xs) = True"
| "isArray v = False"

fun elems :: "jsval \<Rightarrow> jsval list" where
  "elems (JArr xs) = xs"
| "elems v = []"

text \<open>
  Property access \<^verbatim>\<open>v.k\<close> for the keys the handlers read: an object yields the value
  of its last binding of the key (as \<^verbatim>\<open>JSON.parse\<close> keeps the last duplicate), anything
  else yields \<^verbatim>\<open>undefined\<close>.
\<close>

fun js_get :: "jsval \<Rightarrow> string \<Rightarrow> jsval" where
  "js_get (JObj kvs) k = (case map_of (rev kvs) k of Some v \<Rightarrow> v | None \<Rightarrow> JUndefined)"
| "js_get v k = JUndefined"

text \<open>\<^verbatim>\<open>xs[i]\<close>: reading an array past its end yields \<^verbatim>\<open>undefined\<close>.\<close>

definition js_nth :: "jsval list \<Rightarrow> nat \<Rightarrow> jsval" where
  "js_nth xs i = (if i < length xs then xs ! i else JUndefined)"

fun join_comma :: "string list \<Rightarrow> string" where
  "join_comma [] = []"
| "join_comma [s] = s"
| "join_comma (s # t # ss) = s @ '','' @ join_comma (t # ss)"

text \<open>
  \<^verbatim>\<open>`${v}`\<close>: the string a template literal interpolates. An array prints its elements
  joined by commas, with \<^verbatim>\<open>null\<close> and \<^verbatim>\<open>undefined\<close> elements printed empty.
\<close>

fun js_toString :: "jsval \<Rightarrow> string" where
  "js_toString JUndefined = ''undefined''"
| "js_toString JNull = ''null''"
| "js_toString (JBool b) = (if b then ''true'' else ''false'')"
| "js_toString (JNum s) = s"
| "js_toString (JStr s) = s"
| "js_toString (JArr xs) =
     join_comma (map (\<lambda>x. if x = JNull \<or> x = JUndefined then [] else js_toString x) xs)"
| "js_toString (JObj kvs) = ''[object Object]''"

section \<open>Errors\<close>

text \<open>
  A thrown value is an \<^verbatim>\<open>Error\<close> object with a name and a message;
  \<^verbatim>\<open>new Error(m)\<close> is \<open>Error m\<close>.
\<close>

datatype exn = Exn (exn_name: string) (exn_message: string)

definition Error :: "string \<Rightarrow> exn" where
  "Error m = Exn ''Error'' m"

text \<open>\<^verbatim>\<open>String(err)\<close>, by \<^verbatim>\<open>Error.prototype.toString\<close>.\<close>

definition exn_toString :: "exn \<Rightarrow> string" where
  "exn_toString e =
     (if exn_name e = [] then exn_message e
      else if exn_message e = [] then exn_name e
      else exn_name e @ '': '' @ exn_message e)"

text \<open>\<^verbatim>\<open>err.message || String(err)\<close>.\<close>

definition err_text :: "exn \<Rightarrow> string" where
  "err_text e = (if exn_message e \<noteq> [] then exn_message e else exn_toString e)"

section \<open>Documents\<close>

type_synonym byte = "8 word"
type_synonym bytes = "byte list"

text \<open>
  A parsed document of pdf-lib: its pages in order, and the rest of the document
  (catalog, metadata), which the merge never touches. A page is opaque.
\<close>

datatype page = Page nat

record doc =
  doc_pages :: "page list"
  doc_rest :: nat

definition getPageCount :: "doc \<Rightarrow> nat" where
  "getPageCount d = length (doc_pages d)"

definition getPageIndices :: "doc \<Rightarrow> nat list" where
  "getPageIndices d = [0..<length (doc_pages d)]"

text \<open>
  \<^verbatim>\<open>dst.copyPages(src, indices)\<close> returns copies of the pages of \<open>src\<close> at the
  indices, in the order of the indices, and rejects an index out of range.
\<close>

definition copyPages :: "doc \<Rightarrow> doc \<Rightarrow> nat list \<Rightarrow> exn + page list" where
  "copyPages dst src indices =
     (if \<forall>i \<in> set indices. i < length (doc_pages src)
      then Inr (map (\<lambda>i. doc_pages src ! i) indices)
      else Inl (Error ''index out of range''))"

definition addPage :: "doc \<Rightarrow> page \<Rightarrow> doc" where
  "addPage d p = d\<lparr>doc_pages := doc_pages d @ [p]\<rparr>"

section \<open>Collaborators and state\<close>

text \<open>
  What the handlers do to the outside, in order. The collaborators answer as
  functions of the events so far, so a backend may answer the same call differently
  after an upload or a removal.
\<close>

datatype event =
    CreateClient "string option" "string option"
  | Download jsval
  | Upload string bytes string bool
  | FtpAccess jsval jsval jsval bool
  | FtpUploadFrom bytes jsval
  | FtpClose
  | Remove "jsval list"
  | ConsoleWarn string string
  | ConsoleError string exn

text \<open>
  The local variables of a merge: what a declaration binds, and the declarations,
  block entries and exits, \<^verbatim>\<open>fill(0)\<close> calls and \<^verbatim>\<open>= null\<close> assignments in the order
  they run.
\<close>

datatype val = VBuffer bytes | VDoc | VPages | VBytes bytes | VNull

datatype mem_event =
    Declare string val
  | BlockEnter
  | BlockExit
  | Fill string
  | AssignNull string

record state =
  events :: "event list"
  memlog :: "mem_event list"

definition emit :: "event \<Rightarrow> state \<Rightarrow> state" where
  "emit e s = s\<lparr>events := events s @ [e]\<rparr>"

definition note_mem :: "mem_event \<Rightarrow> state \<Rightarrow> state" where
  "note_mem m s = s\<lparr>memlog := memlog s @ [m]\<rparr>"

text \<open>The \<^verbatim>\<open>{ data, error }\<close> a storage download resolves to.\<close>

record dl_response =
  dl_data :: "bytes option"
  dl_error :: "string option"

text \<open>
  The libraries the service calls: supabase-js storage on the bucket
  \<^verbatim>\<open>print-queue\<close>, pdf-lib, basic-ftp and \<^verbatim>\<open>Buffer.from(v, "utf-8")\<close>. \<open>Inl\<close> (or
  \<open>Some\<close> for a call without a result) is a thrown error or a rejected promise; the
  \<open>string option\<close> of an upload or a removal is the message of the
  \<^verbatim>\<open>error\<close> it resolves with.
\<close>

record world =
  createClient :: "string option \<Rightarrow> string option \<Rightarrow> exn option"
  storage_download :: "event list \<Rightarrow> jsval \<Rightarrow> exn + dl_response"
  storage_upload :: "event list \<Rightarrow> string \<Rightarrow> bytes \<Rightarrow> string \<Rightarrow> bool \<Rightarrow> exn + string option"
  storage_remove :: "event list \<Rightarrow> jsval list \<Rightarrow> exn + string option"
  pdf_load :: "bytes \<Rightarrow> exn + doc"
  pdf_save :: "doc \<Rightarrow> exn + bytes"
  ftp_access :: "event list \<Rightarrow> jsval \<Rightarrow> jsval \<Rightarrow> jsval \<Rightarrow> bool \<Rightarrow> exn option"
  ftp_uploadFrom :: "event list \<Rightarrow> bytes \<Rightarrow> jsval \<Rightarrow> exn option"
  buffer_from_utf8 :: "jsval \<Rightarrow> exn + bytes"

record config =
  MERGE_API_SECRET :: "string option"
  SUPABASE_URL :: "string option"
  SUPABASE_SERVICE_ROLE_KEY :: "string option"

record request =
  x_api_secret :: "string option"
  body :: jsval

datatype res_body =
    ErrorBody string
  | MergeBody (body_storagePath: string) (body_size: nat) (body_pages: nat)
  | UploadBody (body_size: nat) (body_pages: nat) (body_ftpUploaded: bool)
      (body_pdfFilename: jsval) (body_xmlFilename: jsval)

record response =
  res_status :: nat
  res_body :: res_body

section \<open>Shared helpers (both files)\<close>

text \<open>
  \<^verbatim>\<open>downloadBatch\<close>, the same text in \<^verbatim>\<open>src/index.js\<close> and in the later file. The
  guard \<^verbatim>\<open>error || !data\<close> throws with \<^verbatim>\<open>error?.message\<close>, which prints
  \<^verbatim>\<open>undefined\<close> when there is no error object.
\<close>

definition downloadBatch :: "world \<Rightarrow> jsval \<Rightarrow> state \<Rightarrow> (exn + bytes) \<times> state" where
  "downloadBatch w storagePath s =
     (case storage_download w (events s) storagePath of
        Inl e \<Rightarrow> (Inl e, emit (Download storagePath) s)
      | Inr r \<Rightarrow>
          (case dl_error r of
             Some m \<Rightarrow>
               (Inl (Error (''Failed to download '' @ js_toString storagePath @ '': '' @ m)),
                emit (Download storagePath) s)
           | None \<Rightarrow>
               (case dl_data r of
                  None \<Rightarrow>
                    (Inl (Error (''Failed to download '' @ js_toString storagePath @
                            '': undefined'')),
                     emit (Download storagePath) s)
                | Some b \<Rightarrow> (Inr b, emit (Download storagePath) s))))"

text \<open>
  The body of one iteration of \<^verbatim>\<open>for (let i = 1; i < storagePaths.length; i++)\<close> in
  \<^verbatim>\<open>mergeBatches\<close>: the block's own declarations end with the block.
\<close>

definition merge_step :: "world \<Rightarrow> jsval list \<Rightarrow> nat \<Rightarrow> doc \<Rightarrow> state \<Rightarrow> (exn + doc) \<times> state" where
  "merge_step w storagePaths i mergedPdf s =
     (case downloadBatch w (js_nth storagePaths i) (note_mem BlockEnter s) of
        (Inl e, s1) \<Rightarrow> (Inl e, s1)
      | (Inr batchBuffer, s1) \<Rightarrow>
          (case pdf_load w batchBuffer of
             Inl e \<Rightarrow> (Inl e, note_mem (Declare ''batchBuffer'' (VBuffer batchBuffer)) s1)
           | Inr batchPdf \<Rightarrow>
               (let s2 = note_mem (Declare ''batchPdf'' VDoc)
                           (note_mem (Declare ''batchBuffer'' (VBuffer batchBuffer)) s1)
                in case copyPages mergedPdf batchPdf (getPageIndices batchPdf) of
                     Inl e \<Rightarrow> (Inl e, s2)
                   | Inr pages \<Rightarrow>
                       (Inr (foldl addPage mergedPdf pages),
                        note_mem BlockExit (note_mem (Declare ''pages'' VPages) s2)))))"

function merge_loop :: "world \<Rightarrow> jsval list \<Rightarrow> nat \<Rightarrow> doc \<Rightarrow> state \<Rightarrow> (exn + doc) \<times> state" where
  "merge_loop w storagePaths i mergedPdf s =
     (if i < length storagePaths
      then (case merge_step w storagePaths i mergedPdf s of
              (Inl e, s') \<Rightarrow> (Inl e, s')
            | (Inr mergedPdf', s') \<Rightarrow> merge_loop w storagePaths (Suc i) mergedPdf' s')
      else (Inr mergedPdf, s))"
  by pat_completeness auto
termination
  by (relation "measure (\<lambda>(w, storagePaths, i, mergedPdf, s). length storagePaths - i)") auto

text \<open>
  \<^verbatim>\<open>mergeBatches\<close>. The buffers are left as they are after loading (``Do NOT call
  buffer.fill(0)''), and \<^verbatim>\<open>firstBuffer\<close> is a \<^verbatim>\<open>const\<close> of the function's own block.
\<close>

definition mergeBatches :: "world \<Rightarrow> jsval list \<Rightarrow> state \<Rightarrow> (exn + bytes \<times> nat) \<times> state" where
  "mergeBatches w storagePaths s =
     (case downloadBatch w (js_nth storagePaths 0) s of
        (Inl e, s1) \<Rightarrow> (Inl e, s1)
      | (Inr firstBuffer, s1) \<Rightarrow>
          (case pdf_load w firstBuffer of
             Inl e \<Rightarrow> (Inl e, note_mem (Declare ''firstBuffer'' (VBuffer firstBuffer)) s1)
           | Inr basePdf \<Rightarrow>
               (case merge_loop w storagePaths 1 basePdf
                       (note_mem (Declare ''mergedPdf'' VDoc)
                          (note_mem (Declare ''firstBuffer'' (VBuffer firstBuffer)) s1)) of
                  (Inl e, s2) \<Rightarrow> (Inl e, s2)
                | (Inr mergedPdf, s2) \<Rightarrow>
                    (case pdf_save w mergedPdf of
                       Inl e \<Rightarrow> (Inl e, s2)
                     | Inr mergedBytes \<Rightarrow>
                         (Inr (mergedBytes, getPageCount mergedPdf),
                          note_mem (AssignNull ''mergedPdf'')
                            (note_mem (Declare ''mergedBytes'' (VBytes mergedBytes)) s2))))))"

section \<open>The later file: \<^verbatim>\<open>checkAuth\<close>, \<^verbatim>\<open>/merge\<close>, \<^verbatim>\<open>/merge-and-upload\<close>\<close>

text \<open>
  \<^verbatim>\<open>checkAuth\<close> answers 401 itself (\<open>Some\<close>) or calls \<^verbatim>\<open>next()\<close> (\<open>None\<close>).
  \<^verbatim>\<open>!secret\<close> holds of a missing header and of an empty one.
\<close>

definition checkAuth :: "config \<Rightarrow> request \<Rightarrow> response option" where
  "checkAuth cfg req =
     (let secret = x_api_secret req
      in if (secret = None \<or> secret = Some []) \<or> secret \<noteq> MERGE_API_SECRET cfg
         then Some \<lparr>res_status = 401, res_body = ErrorBody ''Unauthorized''\<rparr>
         else None)"

definition outputPath :: "jsval \<Rightarrow> jsval \<Rightarrow> string" where
  "outputPath orderId format =
     ''temp/'' @ js_toString orderId @ ''/merged_'' @ js_toString format @ ''.pdf''"

text \<open>The \<^verbatim>\<open>try\<close> block of the \<^verbatim>\<open>/merge\<close> handler.\<close>

definition merge_try :: "config \<Rightarrow> world \<Rightarrow> jsval \<Rightarrow> jsval \<Rightarrow> jsval \<Rightarrow> state \<Rightarrow> (exn + response) \<times> state" where
  "merge_try cfg w storagePaths orderId format s =
     (let s0 = emit (CreateClient (SUPABASE_URL cfg) (SUPABASE_SERVICE_ROLE_KEY cfg)) s
      in case createClient w (SUPABASE_URL cfg) (SUPABASE_SERVICE_ROLE_KEY cfg) of
           Some e \<Rightarrow> (Inl e, s0)
         | None \<Rightarrow>
             (case mergeBatches w (elems storagePaths) s0 of
                (Inl e, s1) \<Rightarrow> (Inl e, s1)
              | (Inr (mergedBytes, pageCount), s1) \<Rightarrow>
                  (let s2 = emit (Upload (outputPath orderId format) mergedBytes
                                    ''application/pdf'' True) s1
                   in case storage_upload w (events s1) (outputPath orderId format) mergedBytes
                             ''application/pdf'' True of
                        Inl e \<Rightarrow> (Inl e, s2)
                      | Inr (Some m) \<Rightarrow> (Inl (Error (''Upload failed: '' @ m)), s2)
                      | Inr None \<Rightarrow>
                          (Inr \<lparr>res_status = 200,
                                res_body = MergeBody (outputPath orderId format)
                                             (length mergedBytes) pageCount\<rparr>, s2))))"

definition merge_handler :: "config \<Rightarrow> world \<Rightarrow> request \<Rightarrow> state \<Rightarrow> response \<times> state" where
  "merge_handler cfg w req s =
     (let storagePaths = js_get (body req) ''storagePaths'';
          orderId = js_get (body req) ''orderId'';
          format = js_get (body req) ''format''
      in if \<not> truthy storagePaths \<or> \<not> isArray storagePaths \<or> length (elems storagePaths) = 0
         then (\<lparr>res_status = 400, res_body = ErrorBody ''storagePaths is required''\<rparr>, s)
         else (case merge_try cfg w storagePaths orderId format s of
                 (Inr res, s') \<Rightarrow> (res, s')
               | (Inl err, s') \<Rightarrow>
                   (\<lparr>res_status = 500, res_body = ErrorBody (err_text err)\<rparr>,
                    emit (ConsoleError ''[merge] Failed:'' err) s')))"

text \<open>\<^verbatim>\<open>app.post("/merge", checkAuth, ...)\<close>.\<close>

definition post_merge :: "config \<Rightarrow> world \<Rightarrow> request \<Rightarrow> state \<Rightarrow> response \<times> state" where
  "post_merge cfg w req s =
     (case checkAuth cfg req of
        Some res \<Rightarrow> (res, s)
      | None \<Rightarrow> merge_handler cfg w req s)"

text \<open>
  The inner \<^verbatim>\<open>try\<close> block of \<^verbatim>\<open>/merge-and-upload\<close>, from \<^verbatim>\<open>client.access\<close> to
  the response. Its \<^verbatim>\<open>catch (ftpErr)\<close> is in \<open>upload_try\<close> below. The removal of
  the batch files has a \<^verbatim>\<open>try\<close> of its own, whose \<^verbatim>\<open>catch\<close> warns; the value the
  removal resolves to is not looked at.
\<close>

definition ftp_block ::
  "world \<Rightarrow> jsval list \<Rightarrow> jsval \<Rightarrow> jsval \<Rightarrow> jsval \<Rightarrow> jsval \<Rightarrow> bytes \<Rightarrow> nat \<Rightarrow> state
     \<Rightarrow> (exn + response) \<times> state" where
  "ftp_block w storagePaths ftpConfig xmlContent xmlFilename pdfFilename mergedBytes pageCount s =
     (let s1 = emit (FtpAccess (js_get ftpConfig ''host'') (js_get ftpConfig ''user'')
                       (js_get ftpConfig ''password'') False) s
      in case ftp_access w (events s) (js_get ftpConfig ''host'') (js_get ftpConfig ''user'')
                (js_get ftpConfig ''password'') False of
           Some e \<Rightarrow> (Inl e, s1)
         | None \<Rightarrow>
             (let s2 = emit (FtpUploadFrom mergedBytes pdfFilename) s1
              in case ftp_uploadFrom w (events s1) mergedBytes pdfFilename of
                   Some e \<Rightarrow> (Inl e, s2)
                 | None \<Rightarrow>
                     (case (if truthy xmlContent \<and> truthy xmlFilename
                            then (case buffer_from_utf8 w xmlContent of
                                    Inl e \<Rightarrow> (Inl e, s2)
                                  | Inr xmlBytes \<Rightarrow>
                                      (case ftp_uploadFrom w (events s2) xmlBytes xmlFilename of
                                         Some e \<Rightarrow> (Inl e, emit (FtpUploadFrom xmlBytes xmlFilename) s2)
                                       | None \<Rightarrow> (Inr True, emit (FtpUploadFrom xmlBytes xmlFilename) s2)))
                            else (Inr False, s2)) of
                        (Inl e, s3) \<Rightarrow> (Inl e, s3)
                      | (Inr xmlUploaded, s3) \<Rightarrow>
                          (let s4 = emit FtpClose s3;
                               s5 = emit (Remove storagePaths) s4;
                               s6 = (case storage_remove w (events s4) storagePaths of
                                       Inl cleanupErr \<Rightarrow>
                                         emit (ConsoleWarn ''[merge-and-upload] Cleanup warning:''
                                                 (exn_message cleanupErr)) s5
                                     | Inr r \<Rightarrow> s5)
                           in (Inr \<lparr>res_status = 200,
                                    res_body = UploadBody (length mergedBytes) pageCount True
                                                 pdfFilename
                                                 (if xmlUploaded then xmlFilename else JNull)\<rparr>,
                               s6)))))"

text \<open>The outer \<^verbatim>\<open>try\<close> block of \<^verbatim>\<open>/merge-and-upload\<close>.\<close>

definition upload_try ::
  "config \<Rightarrow> world \<Rightarrow> jsval \<Rightarrow> jsval \<Rightarrow> jsval \<Rightarrow> jsval \<Rightarrow> jsval \<Rightarrow> state
     \<Rightarrow> (exn + response) \<times> state" where
  "upload_try cfg w storagePaths ftpConfig xmlContent xmlFilename pdfFilename s =
     (let s0 = emit (CreateClient (SUPABASE_URL cfg) (SUPABASE_SERVICE_ROLE_KEY cfg)) s
      in case createClient w (SUPABASE_URL cfg) (SUPABASE_SERVICE_ROLE_KEY cfg) of
           Some e \<Rightarrow> (Inl e, s0)
         | None \<Rightarrow>
             (case mergeBatches w (elems storagePaths) s0 of
                (Inl e, s1) \<Rightarrow> (Inl e, s1)
              | (Inr (mergedBytes, pageCount), s1) \<Rightarrow>
                  (case ftp_block w (elems storagePaths) ftpConfig xmlContent xmlFilename
                          pdfFilename mergedBytes pageCount s1 of
                     (Inr res, s2) \<Rightarrow> (Inr res, s2)
                   | (Inl ftpErr, s2) \<Rightarrow>
                       (Inl (Error (''FTP upload failed: '' @ exn_message ftpErr)),
                        emit FtpClose s2))))"

definition upload_handler :: "config \<Rightarrow> world \<Rightarrow> request \<Rightarrow> state \<Rightarrow> response \<times> state" where
  "upload_handler cfg w req s =
     (let storagePaths = js_get (body req) ''storagePaths'';
          ftpConfig = js_get (body req) ''ftp'';
          xmlContent = js_get (body req) ''xmlContent'';
          xmlFilename = js_get (body req) ''xmlFilename'';
          pdfFilename = js_get (body req) ''pdfFilename''
      in if \<not> truthy storagePaths \<or> \<not> isArray storagePaths \<or> length (elems storagePaths) = 0
         then (\<lparr>res_status = 400, res_body = ErrorBody ''storagePaths is required''\<rparr>, s)
         else if \<not> truthy ftpConfig \<or> \<not> truthy (js_get ftpConfig ''host'')
                   \<or> \<not> truthy (js_get ftpConfig ''user'')
                   \<or> \<not> truthy (js_get ftpConfig ''password'')
         then (\<lparr>res_status = 400,
                res_body = ErrorBody ''ftp config (host, user, password) is required''\<rparr>, s)
         else if \<not> truthy pdfFilename
         then (\<lparr>res_status = 400, res_body = ErrorBody ''pdfFilename is required''\<rparr>, s)
         else (case upload_try cfg w storagePaths ftpConfig xmlContent xmlFilename pdfFilename s of
                 (Inr res, s') \<Rightarrow> (res, s')
               | (Inl err, s') \<Rightarrow>
                   (\<lparr>res_status = 500, res_body = ErrorBody (err_text err)\<rparr>,
                    emit (ConsoleError ''[merge-and-upload] Failed:'' err) s')))"

text \<open>\<^verbatim>\<open>app.post("/merge-and-upload", checkAuth, ...)\<close>.\<close>

definition post_merge_and_upload :: "config \<Rightarrow> world \<Rightarrow> request \<Rightarrow> state \<Rightarrow> response \<times> state" where
  "post_merge_and_upload cfg w req s =
     (case checkAuth cfg req of
        Some res \<Rightarrow> (res, s)
      | None \<Rightarrow> upload_handler cfg w req s)"

section \<open>\<^verbatim>\<open>src/index.js\<close>: the \<^verbatim>\<open>/merge\<close> handler with the merge inline\<close>

text \<open>
  Lines 47 to 60: one iteration of the loop. The buffer is zeroed right after loading
  (\<^verbatim>\<open>batchBuffer.fill(0)\<close>).
\<close>

definition inline_step :: "world \<Rightarrow> jsval list \<Rightarrow> nat \<Rightarrow> doc \<Rightarrow> state \<Rightarrow> (exn + doc) \<times> state" where
  "inline_step w storagePaths i mergedPdf s =
     (case downloadBatch w (js_nth storagePaths i) (note_mem BlockEnter s) of
        (Inl e, s1) \<Rightarrow> (Inl e, s1)
      | (Inr batchBuffer, s1) \<Rightarrow>
          (case pdf_load w batchBuffer of
             Inl e \<Rightarrow> (Inl e, note_mem (Declare ''batchBuffer'' (VBuffer batchBuffer)) s1)
           | Inr batchPdf \<Rightarrow>
               (let s2 = note_mem (Fill ''batchBuffer'')
                           (note_mem (Declare ''batchPdf'' VDoc)
                              (note_mem (Declare ''batchBuffer'' (VBuffer batchBuffer)) s1))
                in case copyPages mergedPdf batchPdf (getPageIndices batchPdf) of
                     Inl e \<Rightarrow> (Inl e, s2)
                   | Inr pages \<Rightarrow>
                       (Inr (foldl addPage mergedPdf pages),
                        note_mem BlockExit (note_mem (Declare ''pages'' VPages) s2)))))"

function inline_loop :: "world \<Rightarrow> jsval list \<Rightarrow> nat \<Rightarrow> doc \<Rightarrow> state \<Rightarrow> (exn + doc) \<times> state" where
  "inline_loop w storagePaths i mergedPdf s =
     (if i < length storagePaths
      then (case inline_step w storagePaths i mergedPdf s of
              (Inl e, s') \<Rightarrow> (Inl e, s')
            | (Inr mergedPdf', s') \<Rightarrow> inline_loop w storagePaths (Suc i) mergedPdf' s')
      else (Inr mergedPdf, s))"
  by pat_completeness auto
termination
  by (relation "measure (\<lambda>(w, storagePaths, i, mergedPdf, s). length storagePaths - i)") auto

text \<open>Lines 39 to 66: the base batch, the loop, the save.\<close>

definition inline_merge :: "world \<Rightarrow> jsval list \<Rightarrow> state \<Rightarrow> (exn + bytes \<times> nat) \<times> state" where
  "inline_merge w storagePaths s =
     (case downloadBatch w (js_nth storagePaths 0) s of
        (Inl e, s1) \<Rightarrow> (Inl e, s1)
      | (Inr firstBuffer, s1) \<Rightarrow>
          (case pdf_load w firstBuffer of
             Inl e \<Rightarrow> (Inl e, note_mem (Declare ''firstBuffer'' (VBuffer firstBuffer)) s1)
           | Inr basePdf \<Rightarrow>
               (case inline_loop w storagePaths 1 basePdf
                       (note_mem (Fill ''firstBuffer'')
                          (note_mem (Declare ''mergedPdf'' VDoc)
                             (note_mem (Declare ''firstBuffer'' (VBuffer firstBuffer)) s1))) of
                  (Inl e, s2) \<Rightarrow> (Inl e, s2)
                | (Inr mergedPdf, s2) \<Rightarrow>
                    (case pdf_save w mergedPdf of
                       Inl e \<Rightarrow> (Inl e, s2)
                     | Inr mergedBytes \<Rightarrow>
                         (Inr (mergedBytes, getPageCount mergedPdf),
                          note_mem (AssignNull ''mergedPdf'')
                            (note_mem (Declare ''mergedBytes'' (VBytes mergedBytes)) s2))))))"

definition legacy_try :: "config \<Rightarrow> world \<Rightarrow> jsval \<Rightarrow> jsval \<Rightarrow> jsval \<Rightarrow> state \<Rightarrow> (exn + response) \<times> state" where
  "legacy_try cfg w storagePaths orderId format s =
     (let s0 = emit (CreateClient (SUPABASE_URL cfg) (SUPABASE_SERVICE_ROLE_KEY cfg)) s
      in case createClient w (SUPABASE_URL cfg) (SUPABASE_SERVICE_ROLE_KEY cfg) of
           Some e \<Rightarrow> (Inl e, s0)
         | None \<Rightarrow>
             (case inline_merge w (elems storagePaths) s0 of
                (Inl e, s1) \<Rightarrow> (Inl e, s1)
              | (Inr (mergedBytes, pageCount), s1) \<Rightarrow>
                  (let s2 = emit (Upload (outputPath orderId format) mergedBytes
                                    ''application/pdf'' True) s1
                   in case storage_upload w (events s1) (outputPath orderId format) mergedBytes
                             ''application/pdf'' True of
                        Inl e \<Rightarrow> (Inl e, s2)
                      | Inr (Some m) \<Rightarrow>
                          (Inl (Error (''Failed to upload merged PDF: '' @ m)), s2)
                      | Inr None \<Rightarrow>
                          (Inr \<lparr>res_status = 200,
                                res_body = MergeBody (outputPath orderId format)
                                             (length mergedBytes) pageCount\<rparr>, s2))))"

text \<open>
  \<^verbatim>\<open>app.post("/merge", ...)\<close> of \<^verbatim>\<open>src/index.js\<close>: the secret is checked in the
  handler itself.
\<close>

definition legacy_post_merge :: "config \<Rightarrow> world \<Rightarrow> request \<Rightarrow> state \<Rightarrow> response \<times> state" where
  "legacy_post_merge cfg w req s =
     (let secret = x_api_secret req
      in if (secret = None \<or> secret = Some []) \<or> secret \<noteq> MERGE_API_SECRET cfg
         then (\<lparr>res_status = 401, res_body = ErrorBody ''Unauthorized''\<rparr>, s)
         else (let storagePaths = js_get (body req) ''storagePaths'';
                   orderId = js_get (body req) ''orderId'';
                   format = js_get (body req) ''format''
               in if \<not> truthy storagePaths \<or> \<not> isArray storagePaths
                       \<or> length (elems storagePaths) = 0
                  then (\<lparr>res_status = 400,
                         res_body = ErrorBody
                           ''storagePaths is required and must be a non-empty array''\<rparr>, s)
                  else (case legacy_try cfg w storagePaths orderId format s of
                          (Inr res, s') \<Rightarrow> (res, s')
                        | (Inl err, s') \<Rightarrow>
                            (\<lparr>res_status = 500, res_body = ErrorBody (err_text err)\<rparr>,
                             emit (ConsoleError ''Merge failed:'' err) s'))))"

section \<open>Variables in scope\<close>

text \<open>
  The scope is a stack of blocks, innermost first, each the bindings it declared.
  \<^verbatim>\<open>buf.fill(0)\<close> keeps the buffer and its length and overwrites its bytes.
\<close>

type_synonym scope = "(string \<times> val) list list"

fun fill0 :: "val \<Rightarrow> val" where
  "fill0 (VBuffer b) = VBuffer (replicate (length b) 0)"
| "fill0 v = v"

fun mem_step :: "scope \<Rightarrow> mem_event \<Rightarrow> scope" where
  "mem_step [] (Declare x v) = [[(x, v)]]"
| "mem_step (b # bs) (Declare x v) = ((x, v) # b) # bs"
| "mem_step bs BlockEnter = [] # bs"
| "mem_step bs BlockExit = tl bs"
| "mem_step bs (Fill x) = map (map (\<lambda>(y, v). (y, if y = x then fill0 v else v))) bs"
| "mem_step bs (AssignNull x) = map (map (\<lambda>(y, v). (y, if y = x then VNull else v))) bs"

definition scope_after :: "mem_event list \<Rightarrow> scope" where
  "scope_after ms = foldl mem_step [[]] ms"

definition docs_in :: "scope \<Rightarrow> nat" where
  "docs_in sc = length (filter (\<lambda>(x, v). v = VDoc) (concat sc))"

fun is_buffer :: "val \<Rightarrow> bool" where
  "is_buffer (VBuffer b) = True"
| "is_buffer v = False"

definition buffers_in :: "scope \<Rightarrow> nat" where
  "buffers_in sc = length (filter (\<lambda>(x, v). is_buffer v) (concat sc))"

text \<open>
  A property of the scope at every instant of a run: at the start and after each step of
  its log.
\<close>

fun holds_from :: "(scope \<Rightarrow> bool) \<Rightarrow> scope \<Rightarrow> mem_event list \<Rightarrow> bool" where
  "holds_from P sc [] = P sc"
| "holds_from P sc (m # ms) = (P sc \<and> holds_from P (mem_step sc m) ms)"

definition always :: "(scope \<Rightarrow> bool) \<Rightarrow> mem_event list \<Rightarrow> bool" where
  "always P ms = holds_from P [[]] ms"

text \<open>A buffer that still holds bytes other than the zeros \<^verbatim>\<open>fill(0)\<close> leaves.\<close>

definition raw :: "val \<Rightarrow> bool" where
  "raw v = (is_buffer v \<and> fill0 v \<noteq> v)"

definition raw_in :: "scope \<Rightarrow> nat" where
  "raw_in sc = length (filter (\<lambda>(x, v). raw v) (concat sc))"

definition bounded :: "scope \<Rightarrow> bool" where
  "bounded sc = (docs_in sc \<le> 2 \<and> buffers_in sc \<le> 2)"

definition bounded_zeroed :: "scope \<Rightarrow> bool" where
  "bounded_zeroed sc = (docs_in sc \<le> 2 \<and> buffers_in sc \<le> 2 \<and> raw_in sc \<le> 1)"

section \<open>Reference definitions: the batches by themselves\<close>

text \<open>
  What fetching and parsing one batch yields when the events so far are \<open>h\<close>: the
  batch's own document, or the error of the fetch or of the parse.
\<close>

definition fetch_doc :: "world \<Rightarrow> event list \<Rightarrow> jsval \<Rightarrow> exn + doc" where
  "fetch_doc w h p =
     (case fst (downloadBatch w p \<lparr>events = h, memlog = []\<rparr>) of
        Inl e \<Rightarrow> Inl e
      | Inr b \<Rightarrow> pdf_load w b)"

text \<open>
  The documents of a list of batches, each fetched once, in list order; the first error
  otherwise. \<open>attempts\<close> counts the fetches this takes.
\<close>

fun batch_docs :: "world \<Rightarrow> event list \<Rightarrow> jsval list \<Rightarrow> exn + doc list" where
  "batch_docs w h [] = Inr []"
| "batch_docs w h (p # ps) =
     (case fetch_doc w h p of
        Inl e \<Rightarrow> Inl e
      | Inr d \<Rightarrow>
          (case batch_docs w (h @ [Download p]) ps of
             Inl e \<Rightarrow> Inl e
           | Inr ds \<Rightarrow> Inr (d # ds)))"

fun attempts :: "world \<Rightarrow> event list \<Rightarrow> jsval list \<Rightarrow> nat" where
  "attempts w h [] = 0"
| "attempts w h (p # ps) =
     (case fetch_doc w h p of
        Inl e \<Rightarrow> 1
      | Inr d \<Rightarrow> Suc (attempts w (h @ [Download p]) ps))"

text \<open>
  The document the spec calls the accumulator: the pages of all batches, batch after
  batch, each batch's pages in its own order, in the first batch's document.
\<close>

definition accumulate :: "doc list \<Rightarrow> doc" where
  "accumulate ds =
     \<lparr>doc_pages = concat (map doc_pages ds),
      doc_rest = (case ds of [] \<Rightarrow> 0 | d # ds' \<Rightarrow> doc_rest d)\<rparr>"

section \<open>An example world\<close>

text \<open>
  A bucket with two batches, of three pages and of two; a document format in which every
  byte of a file is one page; a storage backend that refuses to overwrite an object
  unless asked to upsert; an FTP server that accepts everything.
\<close>

definition demo_download :: "event list \<Rightarrow> jsval \<Rightarrow> exn + dl_response" where
  "demo_download h p =
     (if p = JStr ''batches/a.pdf'' then Inr \<lparr>dl_data = Some [1, 2, 3], dl_error = None\<rparr>
      else if p = JStr ''batches/b.pdf'' then Inr \<lparr>dl_data = Some [4, 5], dl_error = None\<rparr>
      else Inr \<lparr>dl_data = None, dl_error = Some ''Object not found''\<rparr>)"

fun uploads_to :: "string \<Rightarrow> event \<Rightarrow> bool" where
  "uploads_to path (Upload p b ct u) = (p = path)"
| "uploads_to path e = False"

definition demo_upload :: "event list \<Rightarrow> string \<Rightarrow> bytes \<Rightarrow> string \<Rightarrow> bool \<Rightarrow> exn + string option" where
  "demo_upload h path b ct upsert =
     (if \<not> upsert \<and> list_ex (uploads_to path) h
      then Inr (Some ''The resource already exists'')
      else Inr None)"

definition demo_load :: "bytes \<Rightarrow> exn + doc" where
  "demo_load b =
     (if b = [] then Inl (Error ''No PDF header found'')
      else Inr \<lparr>doc_pages = map (\<lambda>x. Page (unat x)) b, doc_rest = 0\<rparr>)"

fun page_byte :: "page \<Rightarrow> byte" where
  "page_byte (Page n) = of_nat n"

definition demo_save :: "doc \<Rightarrow> exn + bytes" where
  "demo_save d = Inr (map page_byte (doc_pages d))"

fun demo_buffer_from :: "jsval \<Rightarrow> exn + bytes" where
  "demo_buffer_from (JStr t) = Inr (map (\<lambda>c. of_nat (of_char c)) t)"
| "demo_buffer_from v = Inl (Exn ''TypeError'' ''The first argument must be of type string'')"

definition demo_world :: world where
  "demo_world =
     \<lparr>createClient = (\<lambda>url key. if url = None then Some (Error ''supabaseUrl is required.'')
                                  else None),
      storage_download = demo_download,
      storage_upload = demo_upload,
      storage_remove = (\<lambda>h ps. Inr None),
      pdf_load = demo_load,
      pdf_save = demo_save,
      ftp_access = (\<lambda>h host user password secure. None),
      ftp_uploadFrom = (\<lambda>h b name. None),
      buffer_from_utf8 = demo_buffer_from\<rparr>"

definition demo_config :: config where
  "demo_config =
     \<lparr>MERGE_API_SECRET = Some ''s3cret'', SUPABASE_URL = Some ''https://db.example'',
      SUPABASE_SERVICE_ROLE_KEY = Some ''service-key''\<rparr>"

definition demo_paths :: "jsval list" where
  "demo_paths = [JStr ''batches/a.pdf'', JStr ''batches/b.pdf'']"

definition demo_ftp :: jsval where
  "demo_ftp = JObj [(''host'', JStr ''ftp.example''), (''user'', JStr ''printer''),
                    (''password'', JStr ''pw'')]"


definition demo_upload_request :: request where
  "demo_upload_request =
     \<lparr>x_api_secret = Some ''s3cret'',
      body = JObj [(''storagePaths'', JArr demo_paths), (''orderId'', JStr ''o17''),
                   (''format'', JStr ''A4''), (''ftp'', demo_ftp),
                   (''xmlContent'', JStr ''<job/>''), (''xmlFilename'', JStr ''o17.xml''),
                   (''pdfFilename'', JStr ''o17.pdf'')]\<rparr>"

definition idle :: state where
  "idle = \<lparr>events = [], memlog = []\<rparr>"



text \<open>
  The example world with a bucket that refuses removals: the removal resolves with an
  \<^verbatim>\<open>error\<close>, as the download and the upload of this client do.
\<close>

definition cleanup_refused_world :: world where
  "cleanup_refused_world =
     demo_world\<lparr>storage_remove := (\<lambda>h ps. Inr (Some ''Permission denied''))\<rparr>"


text \<open>The state the example merge leaves, started from \<open>idle\<close> by a handler.\<close>

definition merged_state :: state where
  "merged_state =
     \<lparr>events = [CreateClient (Some ''https://db.example'') (Some ''service-key''),
                Download (JStr ''batches/a.pdf''), Download (JStr ''batches/b.pdf'')],
      memlog = [Declare ''firstBuffer'' (VBuffer [1, 2, 3]), Declare ''mergedPdf'' VDoc,
             BlockEnter, Declare ''batchBuffer'' (VBuffer [4, 5]), Declare ''batchPdf'' VDoc,
             Declare ''pages'' VPages, BlockExit,
             Declare ''mergedBytes'' (VBytes [1, 2, 3, 4, 5]), AssignNull ''mergedPdf'']\<rparr>"

section \<open>Stages of a request\<close>

text \<open>
  A request that passes the secret check and the \<^verbatim>\<open>storagePaths\<close> guard, gets its
  storage client, and merges its batches into \<open>mergedBytes\<close> of \<open>pageCount\<close> pages,
  which leaves the state \<open>s1\<close>.
\<close>

definition merge_succeeds ::
  "config \<Rightarrow> world \<Rightarrow> request \<Rightarrow> state \<Rightarrow> bytes \<Rightarrow> nat \<Rightarrow> state \<Rightarrow> bool" where
  "merge_succeeds cfg w req s mergedBytes pageCount s1 =
     (checkAuth cfg req = None
      \<and> isArray (js_get (body req) ''storagePaths'')
      \<and> elems (js_get (body req) ''storagePaths'') \<noteq> []
      \<and> createClient w (SUPABASE_URL cfg) (SUPABASE_SERVICE_ROLE_KEY cfg) = None
      \<and> mergeBatches w (elems (js_get (body req) ''storagePaths''))
            (emit (CreateClient (SUPABASE_URL cfg) (SUPABASE_SERVICE_ROLE_KEY cfg)) s)
          = (Inr (mergedBytes, pageCount), s1))"

text \<open>
  Such a request to \<^verbatim>\<open>/merge-and-upload\<close> that also passes the guards on the FTP
  configuration and on \<^verbatim>\<open>pdfFilename\<close>, and whose FTP session opens.
\<close>

definition ftp_session_opens ::
  "config \<Rightarrow> world \<Rightarrow> request \<Rightarrow> state \<Rightarrow> bytes \<Rightarrow> nat \<Rightarrow> state \<Rightarrow> bool" where
  "ftp_session_opens cfg w req s mergedBytes pageCount s1 =
     (merge_succeeds cfg w req s mergedBytes pageCount s1
      \<and> truthy (js_get (body req) ''ftp'')
      \<and> truthy (js_get (js_get (body req) ''ftp'') ''host'')
      \<and> truthy (js_get (js_get (body req) ''ftp'') ''user'')
      \<and> truthy (js_get (js_get (body req) ''ftp'') ''password'')
      \<and> truthy (js_get (body req) ''pdfFilename'')
      \<and> ftp_access w (events s1) (js_get (js_get (body req) ''ftp'') ''host'')
            (js_get (js_get (body req) ''ftp'') ''user'')
            (js_get (js_get (body req) ''ftp'') ''password'') False = None)"

text \<open>The events a run adds to those before it.\<close>

definition new_events :: "state \<Rightarrow> state \<Rightarrow> event list" where
  "new_events s s' = drop (length (events s)) (events s')"


fun is_warning :: "event \<Rightarrow> bool" where
  "is_warning (ConsoleWarn a b) = True"
| "is_warning e = False"

section \<open>Basic facts\<close>

lemma emit_simps [simp]:
  "events (emit e s) = events s @ [e]" "memlog (emit e s) = memlog s"
  by (simp_all add: emit_def)

lemma note_mem_simps [simp]:
  "events (note_mem m s) = events s" "memlog (note_mem m s) = memlog s @ [m]"
  by (simp_all add: note_mem_def)

lemma downloadBatch_snd: "snd (downloadBatch w p s) = emit (Download p) s"
  by (simp add: downloadBatch_def split: sum.splits option.splits)

lemma downloadBatch_fst:
  "fst (downloadBatch w p s) = fst (downloadBatch w p \<lparr>events = events s, memlog = []\<rparr>)"
  by (simp add: downloadBatch_def split: sum.splits option.splits)

lemma copyPages_all: "copyPages d src (getPageIndices src) = Inr (doc_pages src)"
  by (simp add: copyPages_def getPageIndices_def map_nth)

lemma foldl_addPage: "foldl addPage d ps = d\<lparr>doc_pages := doc_pages d @ ps\<rparr>"
  by (induction ps arbitrary: d) (simp_all add: addPage_def)

section \<open>The example world, run\<close>

text \<open>
  The facts below hold of every world with the example bucket and document format,
  whatever its FTP server and its removal do.
\<close>

lemma demo_world_fields:
  "createClient demo_world url key
     = (if url = None then Some (Error ''supabaseUrl is required.'') else None)"
  "storage_download demo_world = demo_download"
  "storage_upload demo_world = demo_upload"
  "storage_remove demo_world h ps = Inr None"
  "pdf_load demo_world = demo_load"
  "pdf_save demo_world = demo_save"
  "ftp_access demo_world h host user password secure = None"
  "ftp_uploadFrom demo_world h b name = None"
  "buffer_from_utf8 demo_world = demo_buffer_from"
  by (simp_all add: demo_world_def)

lemma demo_paths_ne: "demo_paths \<noteq> []"
  by (simp add: demo_paths_def)

lemma demo_fetch_a:
  assumes "storage_download w = demo_download"
  shows "downloadBatch w (JStr ''batches/a.pdf'') s
           = (Inr [1, 2, 3], emit (Download (JStr ''batches/a.pdf'')) s)"
  using assms by (simp add: downloadBatch_def demo_download_def)

lemma demo_fetch_b:
  assumes "storage_download w = demo_download"
  shows "downloadBatch w (JStr ''batches/b.pdf'') s
           = (Inr [4, 5], emit (Download (JStr ''batches/b.pdf'')) s)"
  using assms by (simp add: downloadBatch_def demo_download_def)

lemma demo_fetch_missing:
  assumes "storage_download w = demo_download"
  shows "downloadBatch w (JStr ''batches/missing.pdf'') s
           = (Inl (Error ''Failed to download batches/missing.pdf: Object not found''),
              emit (Download (JStr ''batches/missing.pdf'')) s)"
  using assms by (simp add: downloadBatch_def demo_download_def)

lemma demo_load_a:
  "demo_load [1, 2, 3] = Inr \<lparr>doc_pages = [Page 1, Page 2, Page 3], doc_rest = 0\<rparr>"
  by (simp add: demo_load_def)

lemma demo_load_b:
  "demo_load [4, 5] = Inr \<lparr>doc_pages = [Page 4, Page 5], doc_rest = 0\<rparr>"
  by (simp add: demo_load_def)

lemma demo_merge:
  assumes "storage_download w = demo_download" "pdf_load w = demo_load"
    "pdf_save w = demo_save"
  shows "mergeBatches w demo_paths s
     = (Inr ([1, 2, 3, 4, 5], 5),
        s\<lparr>events := events s @ [Download (JStr ''batches/a.pdf''), Download (JStr ''batches/b.pdf'')],
          memlog := memlog s @
            [Declare ''firstBuffer'' (VBuffer [1, 2, 3]), Declare ''mergedPdf'' VDoc,
             BlockEnter, Declare ''batchBuffer'' (VBuffer [4, 5]), Declare ''batchPdf'' VDoc,
             Declare ''pages'' VPages, BlockExit,
             Declare ''mergedBytes'' (VBytes [1, 2, 3, 4, 5]), AssignNull ''mergedPdf'']\<rparr>)"
  using assms
  by (simp add: mergeBatches_def merge_step_def demo_paths_def js_nth_def demo_fetch_a demo_fetch_b
      demo_load_a demo_load_b demo_save_def copyPages_all addPage_def getPageCount_def
      emit_def note_mem_def)

section \<open>Authentication and validation\<close>

text \<open>
  C10. A request to \<^verbatim>\<open>/merge\<close> (either file) or \<^verbatim>\<open>/merge-and-upload\<close> whose
  \<^verbatim>\<open>x-api-secret\<close> header is missing, or differs from the configured secret, is
  answered 401 Unauthorized, and the state is left as it was: no client is created,
  nothing is downloaded, merged, uploaded or removed.
\<close>

theorem unauthorized_rejected:
  assumes "x_api_secret req = None \<or> x_api_secret req \<noteq> MERGE_API_SECRET cfg"
  shows "post_merge cfg w req s
           = (\<lparr>res_status = 401, res_body = ErrorBody ''Unauthorized''\<rparr>, s)
       \<and> post_merge_and_upload cfg w req s
           = (\<lparr>res_status = 401, res_body = ErrorBody ''Unauthorized''\<rparr>, s)
       \<and> legacy_post_merge cfg w req s
           = (\<lparr>res_status = 401, res_body = ErrorBody ''Unauthorized''\<rparr>, s)"
  using assms
  by (auto simp: post_merge_def post_merge_and_upload_def legacy_post_merge_def checkAuth_def
      Let_def)

theorem unauthorized_rejected_witness:
  "x_api_secret (demo_upload_request\<lparr>x_api_secret := Some ''guess''\<rparr>)
     \<noteq> MERGE_API_SECRET demo_config
   \<and> post_merge demo_config demo_world (demo_upload_request\<lparr>x_api_secret := Some ''guess''\<rparr>) idle
       = (\<lparr>res_status = 401, res_body = ErrorBody ''Unauthorized''\<rparr>, idle)
   \<and> post_merge_and_upload demo_config demo_world
         (demo_upload_request\<lparr>x_api_secret := Some ''guess''\<rparr>) idle
       = (\<lparr>res_status = 401, res_body = ErrorBody ''Unauthorized''\<rparr>, idle)
   \<and> legacy_post_merge demo_config demo_world
         (demo_upload_request\<lparr>x_api_secret := Some ''guess''\<rparr>) idle
       = (\<lparr>res_status = 401, res_body = ErrorBody ''Unauthorized''\<rparr>, idle)"
proof -
  have h: "x_api_secret (demo_upload_request\<lparr>x_api_secret := Some ''guess''\<rparr>)
             \<noteq> MERGE_API_SECRET demo_config"
    by (simp add: demo_config_def)
  show ?thesis
    using h unauthorized_rejected [of "demo_upload_request\<lparr>x_api_secret := Some ''guess''\<rparr>"
        demo_config demo_world idle]
    by simp
qed

text \<open>
  C5. A request whose \<^verbatim>\<open>storagePaths\<close> is missing, is not an array, or is an empty
  array leaves the state as it was, so no batch is fetched and no other call is made;
  once the secret has been accepted, the answer is the 400 validation error.
\<close>

theorem empty_batch_list_rejected:
  assumes "\<not> isArray (js_get (body req) ''storagePaths'')
           \<or> elems (js_get (body req) ''storagePaths'') = []"
  shows "snd (post_merge cfg w req s) = s
       \<and> snd (post_merge_and_upload cfg w req s) = s
       \<and> snd (legacy_post_merge cfg w req s) = s
       \<and> (checkAuth cfg req = None \<longrightarrow>
            fst (post_merge cfg w req s)
              = \<lparr>res_status = 400, res_body = ErrorBody ''storagePaths is required''\<rparr>
          \<and> fst (post_merge_and_upload cfg w req s)
              = \<lparr>res_status = 400, res_body = ErrorBody ''storagePaths is required''\<rparr>
          \<and> fst (legacy_post_merge cfg w req s)
              = \<lparr>res_status = 400, res_body = ErrorBody
                   ''storagePaths is required and must be a non-empty array''\<rparr>)"
  using assms
  by (auto simp: post_merge_def post_merge_and_upload_def legacy_post_merge_def checkAuth_def
      merge_handler_def upload_handler_def Let_def split: option.splits)

theorem empty_batch_list_rejected_witness:
  "elems (js_get (body (demo_upload_request\<lparr>body := JObj [(''storagePaths'', JArr [])]\<rparr>))
       ''storagePaths'') = []
   \<and> checkAuth demo_config (demo_upload_request\<lparr>body := JObj [(''storagePaths'', JArr [])]\<rparr>)
       = None
   \<and> post_merge demo_config demo_world
         (demo_upload_request\<lparr>body := JObj [(''storagePaths'', JArr [])]\<rparr>) idle
       = (\<lparr>res_status = 400, res_body = ErrorBody ''storagePaths is required''\<rparr>, idle)
   \<and> post_merge_and_upload demo_config demo_world
         (demo_upload_request\<lparr>body := JObj [(''storagePaths'', JArr [])]\<rparr>) idle
       = (\<lparr>res_status = 400, res_body = ErrorBody ''storagePaths is required''\<rparr>, idle)
   \<and> legacy_post_merge demo_config demo_world
         (demo_upload_request\<lparr>body := JObj [(''storagePaths'', JArr [])]\<rparr>) idle
       = (\<lparr>res_status = 400, res_body = ErrorBody
            ''storagePaths is required and must be a non-empty array''\<rparr>, idle)"
proof -
  let ?req = "demo_upload_request\<lparr>body := JObj [(''storagePaths'', JArr [])]\<rparr>"
  have h: "elems (js_get (body ?req) ''storagePaths'') = []"
    by simp
  have a: "checkAuth demo_config ?req = None"
    by (simp add: checkAuth_def demo_config_def demo_upload_request_def)
  show ?thesis
    using h a empty_batch_list_rejected [of ?req demo_config demo_world idle]
    by (simp add: prod_eq_iff)
qed

section \<open>The merge\<close>

lemma merge_step_events:
  "events (snd (merge_step w ps i d s)) = events s @ [Download (js_nth ps i)]"
  using downloadBatch_snd [of w "js_nth ps i" "note_mem BlockEnter s"]
  by (auto simp: merge_step_def copyPages_all Let_def split: prod.splits sum.splits)

lemma merge_step_fst:
  "fst (merge_step w ps i d s) =
     (case fetch_doc w (events s) (js_nth ps i) of
        Inl e \<Rightarrow> Inl e
      | Inr bd \<Rightarrow> Inr (d\<lparr>doc_pages := doc_pages d @ doc_pages bd\<rparr>))"
  using downloadBatch_fst [of w "js_nth ps i" "note_mem BlockEnter s"]
  by (auto simp: merge_step_def fetch_doc_def copyPages_all foldl_addPage Let_def
      split: prod.splits sum.splits)

lemma merge_loop_fst:
  "fst (merge_loop w ps i d s) =
     (case batch_docs w (events s) (drop i ps) of
        Inl e \<Rightarrow> Inl e
      | Inr ds \<Rightarrow> Inr (d\<lparr>doc_pages := doc_pages d @ concat (map doc_pages ds)\<rparr>))"
proof (induction w ps i d s rule: merge_loop.induct)
  case (1 w ps i d s)
  show ?case
  proof (cases "i < length ps")
    case False
    then show ?thesis by simp
  next
    case True
    then have dr: "drop i ps = js_nth ps i # drop (Suc i) ps"
      by (simp add: js_nth_def Cons_nth_drop_Suc)
    obtain r s' where st: "merge_step w ps i d s = (r, s')" by (cases "merge_step w ps i d s")
    have ev: "events s' = events s @ [Download (js_nth ps i)]"
      using merge_step_events [of w ps i d s] st by simp
    have fs: "r = (case fetch_doc w (events s) (js_nth ps i) of
        Inl e \<Rightarrow> Inl e
      | Inr bd \<Rightarrow> Inr (d\<lparr>doc_pages := doc_pages d @ doc_pages bd\<rparr>))"
      using merge_step_fst [of w ps i d s] st by simp
    show ?thesis
    proof (cases r)
      case (Inl e)
      then show ?thesis using True st fs dr by (simp split: sum.splits)
    next
      case (Inr d')
      then have "fst (merge_loop w ps i d s) = fst (merge_loop w ps (Suc i) d' s')"
        using True st by simp
      also have "\<dots> = (case batch_docs w (events s') (drop (Suc i) ps) of
        Inl e \<Rightarrow> Inl e
      | Inr ds \<Rightarrow> Inr (d'\<lparr>doc_pages := doc_pages d' @ concat (map doc_pages ds)\<rparr>))"
        using "1.IH" [OF True st [symmetric] Inr] .
      finally show ?thesis using fs Inr dr ev by (auto split: sum.splits)
    qed
  qed
qed

lemma merge_loop_events:
  "events (snd (merge_loop w ps i d s)) =
     events s @ map Download (take (attempts w (events s) (drop i ps)) (drop i ps))"
proof (induction w ps i d s rule: merge_loop.induct)
  case (1 w ps i d s)
  show ?case
  proof (cases "i < length ps")
    case False
    then show ?thesis by simp
  next
    case True
    then have dr: "drop i ps = js_nth ps i # drop (Suc i) ps"
      by (simp add: js_nth_def Cons_nth_drop_Suc)
    obtain r s' where st: "merge_step w ps i d s = (r, s')" by (cases "merge_step w ps i d s")
    have ev: "events s' = events s @ [Download (js_nth ps i)]"
      using merge_step_events [of w ps i d s] st by simp
    have fs: "r = (case fetch_doc w (events s) (js_nth ps i) of
        Inl e \<Rightarrow> Inl e
      | Inr bd \<Rightarrow> Inr (d\<lparr>doc_pages := doc_pages d @ doc_pages bd\<rparr>))"
      using merge_step_fst [of w ps i d s] st by simp
    show ?thesis
    proof (cases r)
      case (Inl e)
      then show ?thesis using True st fs dr ev by (simp split: sum.splits)
    next
      case (Inr d')
      then have "events (snd (merge_loop w ps i d s)) = events (snd (merge_loop w ps (Suc i) d' s'))"
        using True st by simp
      also have "\<dots> = events s' @ map Download (take (attempts w (events s') (drop (Suc i) ps)) (drop (Suc i) ps))"
        using "1.IH" [OF True st [symmetric] Inr] .
      finally show ?thesis using fs Inr dr ev by (auto split: sum.splits)
    qed
  qed
qed



lemma mergeBatches_fst:
  assumes "ps \<noteq> []"
  shows "fst (mergeBatches w ps s) =
     (case batch_docs w (events s) ps of
        Inl e \<Rightarrow> Inl e
      | Inr ds \<Rightarrow>
          (case pdf_save w (accumulate ds) of
             Inl e \<Rightarrow> Inl e
           | Inr out \<Rightarrow> Inr (out, sum_list (map getPageCount ds))))"
proof -
  obtain p ps' where ps: "ps = p # ps'" using assms by (cases ps) auto
  obtain r s1 where dl: "downloadBatch w p s = (r, s1)" by (cases "downloadBatch w p s")
  have s1: "s1 = emit (Download p) s" using downloadBatch_snd [of w p s] dl by simp
  have r: "fst (downloadBatch w p \<lparr>events = events s, memlog = []\<rparr>) = r"
    using downloadBatch_fst [of w p s] dl by simp
  have sum: "length (concat (map doc_pages ds)) = sum_list (map getPageCount ds)" for ds
    by (induction ds) (simp_all add: getPageCount_def)
  show ?thesis
  proof (cases r)
    case (Inl e)
    then show ?thesis using ps dl r by (simp add: mergeBatches_def js_nth_def fetch_doc_def)
  next
    case (Inr fb)
    show ?thesis
    proof (cases "pdf_load w fb")
      case (Inl e)
      then show ?thesis using ps dl r \<open>r = Inr fb\<close>
        by (simp add: mergeBatches_def js_nth_def fetch_doc_def)
    next
      case (Inr base)
      let ?s3 = "note_mem (Declare ''mergedPdf'' VDoc)
                   (note_mem (Declare ''firstBuffer'' (VBuffer fb)) s1)"
      have lp: "fst (merge_loop w ps 1 base ?s3) =
          (case batch_docs w (events s @ [Download p]) ps' of
             Inl e \<Rightarrow> Inl e
           | Inr ds \<Rightarrow> Inr (base\<lparr>doc_pages := doc_pages base @ concat (map doc_pages ds)\<rparr>))"
        using merge_loop_fst [of w ps 1 base ?s3] s1 ps by simp
      have acc: "base\<lparr>doc_pages := doc_pages base @ concat (map doc_pages ds)\<rparr>
                   = accumulate (base # ds)" for ds
        by (simp add: accumulate_def)
      have cnt: "getPageCount (accumulate (base # ds)) = sum_list (map getPageCount (base # ds))"
        for ds
        using sum [of "base # ds"] by (simp add: accumulate_def getPageCount_def)
      obtain r2 s2 where ml: "merge_loop w ps 1 base ?s3 = (r2, s2)"
        by (cases "merge_loop w ps 1 base ?s3")
      show ?thesis
        using ps dl r \<open>r = Inr fb\<close> Inr lp ml acc cnt
        by (auto simp: mergeBatches_def js_nth_def fetch_doc_def split: sum.splits)
    qed
  qed
qed

lemma mergeBatches_events:
  assumes "ps \<noteq> []"
  shows "events (snd (mergeBatches w ps s))
           = events s @ map Download (take (attempts w (events s) ps) ps)"
proof -
  obtain p ps' where ps: "ps = p # ps'" using assms by (cases ps) auto
  obtain r s1 where dl: "downloadBatch w p s = (r, s1)" by (cases "downloadBatch w p s")
  have s1: "s1 = emit (Download p) s" using downloadBatch_snd [of w p s] dl by simp
  have r: "fst (downloadBatch w p \<lparr>events = events s, memlog = []\<rparr>) = r"
    using downloadBatch_fst [of w p s] dl by simp
  show ?thesis
  proof (cases r)
    case (Inl e)
    then show ?thesis using ps dl r s1 by (simp add: mergeBatches_def js_nth_def fetch_doc_def)
  next
    case (Inr fb)
    show ?thesis
    proof (cases "pdf_load w fb")
      case (Inl e)
      then show ?thesis using ps dl r s1 \<open>r = Inr fb\<close>
        by (simp add: mergeBatches_def js_nth_def fetch_doc_def)
    next
      case (Inr base)
      let ?s3 = "note_mem (Declare ''mergedPdf'' VDoc)
                   (note_mem (Declare ''firstBuffer'' (VBuffer fb)) s1)"
      have lp: "events (snd (merge_loop w ps 1 base ?s3)) =
          events s @ [Download p]
            @ map Download (take (attempts w (events s @ [Download p]) ps') ps')"
        using merge_loop_events [of w ps 1 base ?s3] s1 ps by simp
      obtain r2 s2 where ml: "merge_loop w ps 1 base ?s3 = (r2, s2)"
        by (cases "merge_loop w ps 1 base ?s3")
      show ?thesis
        using ps dl r \<open>r = Inr fb\<close> Inr lp ml
        by (auto simp: mergeBatches_def js_nth_def fetch_doc_def split: sum.splits)
    qed
  qed
qed

lemma batch_docs_append:
  "batch_docs w h (xs @ ys) =
     (case batch_docs w h xs of
        Inl e \<Rightarrow> Inl e
      | Inr ds \<Rightarrow>
          (case batch_docs w (h @ map Download xs) ys of
             Inl e \<Rightarrow> Inl e
           | Inr ds' \<Rightarrow> Inr (ds @ ds')))"
  by (induction xs arbitrary: h) (auto split: sum.splits)

lemma attempts_append:
  "batch_docs w h xs = Inr ds \<Longrightarrow>
   attempts w h (xs @ ys) = length xs + attempts w (h @ map Download xs) ys"
  by (induction xs arbitrary: h ds) (auto split: sum.splits)





lemma accumulate_single: "accumulate [d] = d"
  by (simp add: accumulate_def)





text \<open>
  C4. When batches \<open>0\<close> to \<open>k - 1\<close> have been fetched and parsed and the fetch of batch
  \<open>k\<close> fails with \<open>e\<close>, the merge yields no artifact but the error \<open>e\<close> itself, and
  its downloads are those of batches \<open>0\<close> to \<open>k\<close>, once each: batch \<open>k\<close> is not
  retried and no later batch is fetched. (The same holds for \<open>k = 0\<close>.)
\<close>

theorem fetch_failure_fail_fast:
  assumes k: "k < length ps"
    and before: "batch_docs w (events s) (take k ps) = Inr ds"
    and fails: "fst (downloadBatch w (ps ! k)
                       \<lparr>events = events s @ map Download (take k ps), memlog = []\<rparr>) = Inl e"
  shows "fst (mergeBatches w ps s) = Inl e
       \<and> events (snd (mergeBatches w ps s)) = events s @ map Download (take (Suc k) ps)"
proof -
  have ne: "ps \<noteq> []" using k by auto
  have split: "ps = take k ps @ (ps ! k # drop (Suc k) ps)"
    using k by (simp add: id_take_nth_drop [symmetric])
  have fd: "fetch_doc w (events s @ map Download (take k ps)) (ps ! k) = Inl e"
    using fails by (simp add: fetch_doc_def)
  have bd: "batch_docs w (events s) ps = Inl e"
    using batch_docs_append [of w "events s" "take k ps" "ps ! k # drop (Suc k) ps"]
      before fd split by simp
  have at: "attempts w (events s) ps = Suc k"
    using attempts_append [OF before, of "ps ! k # drop (Suc k) ps"] fd split k by simp
  show ?thesis
    using mergeBatches_fst [OF ne, of w s] mergeBatches_events [OF ne, of w s] bd at by simp
qed



theorem fetch_failure_fail_fast_witness:
  "fst (mergeBatches demo_world
          [JStr ''batches/a.pdf'', JStr ''batches/missing.pdf'', JStr ''batches/b.pdf''] idle)
     = Inl (Error ''Failed to download batches/missing.pdf: Object not found'')
   \<and> events (snd (mergeBatches demo_world
          [JStr ''batches/a.pdf'', JStr ''batches/missing.pdf'', JStr ''batches/b.pdf''] idle))
     = [Download (JStr ''batches/a.pdf''), Download (JStr ''batches/missing.pdf'')]"
proof -
  let ?ps = "[JStr ''batches/a.pdf'', JStr ''batches/missing.pdf'', JStr ''batches/b.pdf'']"
  have k: "(1::nat) < length ?ps"
    by simp
  have before: "batch_docs demo_world (events idle) (take 1 ?ps)
                  = Inr [\<lparr>doc_pages = [Page 1, Page 2, Page 3], doc_rest = 0\<rparr>]"
    by (simp add: fetch_doc_def demo_fetch_a demo_load_a demo_world_fields)
  have fails: "fst (downloadBatch demo_world (?ps ! 1)
                     \<lparr>events = events idle @ map Download (take 1 ?ps), memlog = []\<rparr>)
                 = Inl (Error ''Failed to download batches/missing.pdf: Object not found'')"
    by (simp add: demo_fetch_missing demo_world_fields)
  show ?thesis
    using fetch_failure_fail_fast [OF k before fails] by (simp add: idle_def)
qed

text \<open>
  C8. Merging a one-batch list fetches that batch once and yields the parse of its bytes
  saved again, the document unchanged, with that document's page count (and the error of
  the fetch, the parse or the save otherwise).
\<close>

theorem single_batch_round_trip:
  "fst (mergeBatches w [p] s) =
     (case fetch_doc w (events s) p of
        Inl e \<Rightarrow> Inl e
      | Inr d \<Rightarrow>
          (case pdf_save w d of
             Inl e \<Rightarrow> Inl e
           | Inr out \<Rightarrow> Inr (out, length (doc_pages d))))
   \<and> events (snd (mergeBatches w [p] s)) = events s @ [Download p]"
  using mergeBatches_fst [of "[p]" w s] mergeBatches_events [of "[p]" w s]
  by (auto simp: accumulate_single getPageCount_def split: sum.splits)


theorem single_batch_round_trip_witness:
  "fst (mergeBatches demo_world [JStr ''batches/a.pdf''] idle) = Inr ([1, 2, 3], 3)
   \<and> pdf_load demo_world [1, 2, 3]
       = Inr \<lparr>doc_pages = [Page 1, Page 2, Page 3], doc_rest = 0\<rparr>
   \<and> events (snd (mergeBatches demo_world [JStr ''batches/a.pdf''] idle))
       = [Download (JStr ''batches/a.pdf'')]"
  using single_batch_round_trip [of demo_world "JStr ''batches/a.pdf''" idle]
  by (simp add: fetch_doc_def demo_fetch_a demo_load_a demo_save_def demo_world_fields idle_def)

section \<open>Delivery to object storage\<close>

lemma truthy_isArray: "isArray v \<Longrightarrow> truthy v"
  by (cases v) simp_all








text \<open>
  A merge that fails in a handler: the error it threw is logged and answered as a 500,
  and nothing is uploaded.
\<close>

lemma merge_failure_answers_500:
  assumes "checkAuth cfg req = None"
    and "isArray (js_get (body req) ''storagePaths'')"
    and "elems (js_get (body req) ''storagePaths'') \<noteq> []"
    and "createClient w (SUPABASE_URL cfg) (SUPABASE_SERVICE_ROLE_KEY cfg) = None"
    and "mergeBatches w (elems (js_get (body req) ''storagePaths''))
           (emit (CreateClient (SUPABASE_URL cfg) (SUPABASE_SERVICE_ROLE_KEY cfg)) s)
         = (Inl e, s1)"
  shows "post_merge cfg w req s
           = (\<lparr>res_status = 500, res_body = ErrorBody (err_text e)\<rparr>,
              emit (ConsoleError ''[merge] Failed:'' e) s1)"
  using assms truthy_isArray [OF assms(2)]
  by (simp add: post_merge_def merge_handler_def merge_try_def Let_def)

section \<open>Delivery over FTP\<close>

lemma err_text_Error: "m \<noteq> [] \<Longrightarrow> err_text (Error m) = m"
  by (simp add: err_text_def Error_def)

lemma opened_run:
  assumes "ftp_session_opens cfg w req s mergedBytes pageCount s1"
  shows "post_merge_and_upload cfg w req s =
     (case ftp_block w (elems (js_get (body req) ''storagePaths'')) (js_get (body req) ''ftp'')
             (js_get (body req) ''xmlContent'') (js_get (body req) ''xmlFilename'')
             (js_get (body req) ''pdfFilename'') mergedBytes pageCount s1 of
        (Inr res, s2) \<Rightarrow> (res, s2)
      | (Inl ftpErr, s2) \<Rightarrow>
          (\<lparr>res_status = 500,
            res_body = ErrorBody (''FTP upload failed: '' @ exn_message ftpErr)\<rparr>,
           emit (ConsoleError ''[merge-and-upload] Failed:''
                   (Error (''FTP upload failed: '' @ exn_message ftpErr)))
             (emit FtpClose s2)))"
proof -
  have tr: "truthy (js_get (body req) ''storagePaths'')"
    using assms by (simp add: ftp_session_opens_def merge_succeeds_def truthy_isArray)
  show ?thesis
    using assms tr
    by (auto simp: ftp_session_opens_def merge_succeeds_def post_merge_and_upload_def
        upload_handler_def upload_try_def Let_def err_text_Error split: prod.splits sum.splits)
qed





lemma demo_upload_fields:
  "x_api_secret demo_upload_request = Some ''s3cret''"
  "js_get (body demo_upload_request) ''storagePaths'' = JArr demo_paths"
  "js_get (body demo_upload_request) ''ftp'' = demo_ftp"
  "js_get (body demo_upload_request) ''xmlContent'' = JStr ''<job/>''"
  "js_get (body demo_upload_request) ''xmlFilename'' = JStr ''o17.xml''"
  "js_get (body demo_upload_request) ''pdfFilename'' = JStr ''o17.pdf''"
  "js_get demo_ftp ''host'' = JStr ''ftp.example''"
  "js_get demo_ftp ''user'' = JStr ''printer''"
  "js_get demo_ftp ''password'' = JStr ''pw''"
  "truthy demo_ftp"
  by (simp_all add: demo_upload_request_def demo_ftp_def)

lemma demo_opens:
  assumes "createClient w (Some ''https://db.example'') (Some ''service-key'') = None"
    "storage_download w = demo_download" "pdf_load w = demo_load" "pdf_save w = demo_save"
    "\<And>h host user password secure. ftp_access w h host user password secure = None"
    "x_api_secret req = Some ''s3cret''"
    "js_get (body req) ''storagePaths'' = JArr demo_paths"
    "js_get (body req) ''ftp'' = demo_ftp"
    "js_get (body req) ''pdfFilename'' = JStr ''o17.pdf''"
  shows "ftp_session_opens demo_config w req idle [1, 2, 3, 4, 5] 5 merged_state"
  using assms
  by (simp add: ftp_session_opens_def merge_succeeds_def checkAuth_def demo_config_def
      demo_merge demo_paths_ne demo_upload_fields idle_def merged_state_def emit_def)

text \<open>
  A delivery whose merge, FTP login and PDF upload succeed, and whose sidecar transfer
  succeeds if there is one: the whole run.
\<close>

lemma successful_delivery_run:
  fixes req :: request and w :: world and s1 :: state and mergedBytes xmlBytes :: bytes
  defines "ftp \<equiv> js_get (body req) ''ftp''"
    and "pdfFilename \<equiv> js_get (body req) ''pdfFilename''"
    and "xmlContent \<equiv> js_get (body req) ''xmlContent''"
    and "xmlFilename \<equiv> js_get (body req) ''xmlFilename''"
    and "storagePaths \<equiv> elems (js_get (body req) ''storagePaths'')"
  defines "access \<equiv> FtpAccess (js_get ftp ''host'') (js_get ftp ''user'')
                      (js_get ftp ''password'') False"
  defines "sent \<equiv> [access, FtpUploadFrom mergedBytes pdfFilename]
                    @ (if truthy xmlContent \<and> truthy xmlFilename
                       then [FtpUploadFrom xmlBytes xmlFilename] else [])"
  assumes opened: "ftp_session_opens cfg w req s mergedBytes pageCount s1"
    and primary: "ftp_uploadFrom w (events s1 @ [access]) mergedBytes pdfFilename = None"
    and sidecar:
      "truthy xmlContent \<and> truthy xmlFilename \<longrightarrow>
         buffer_from_utf8 w xmlContent = Inr xmlBytes
         \<and> ftp_uploadFrom w (events s1 @ [access, FtpUploadFrom mergedBytes pdfFilename])
               xmlBytes xmlFilename = None"
  shows "fst (post_merge_and_upload cfg w req s)
           = \<lparr>res_status = 200,
              res_body = UploadBody (length mergedBytes) pageCount True pdfFilename
                (if truthy xmlContent \<and> truthy xmlFilename then xmlFilename else JNull)\<rparr>
       \<and> events (snd (post_merge_and_upload cfg w req s))
           = events s1 @ sent @ [FtpClose, Remove storagePaths]
             @ (case storage_remove w (events s1 @ sent @ [FtpClose]) storagePaths of
                  Inl cleanupErr \<Rightarrow>
                    [ConsoleWarn ''[merge-and-upload] Cleanup warning:'' (exn_message cleanupErr)]
                | Inr r \<Rightarrow> [])"
proof -
  have acc: "ftp_access w (events s1) (js_get ftp ''host'') (js_get ftp ''user'')
               (js_get ftp ''password'') False = None"
    using opened by (simp add: ftp_session_opens_def ftp_def)
  show ?thesis
    using primary sidecar acc unfolding opened_run [OF opened]
    by (auto simp: ftp_block_def Let_def ftp_def pdfFilename_def xmlContent_def
        xmlFilename_def access_def sent_def storagePaths_def split: sum.splits)
qed













lemma cleanup_refused_fields:
  "createClient cleanup_refused_world url key
     = (if url = None then Some (Error ''supabaseUrl is required.'') else None)"
  "storage_download cleanup_refused_world = demo_download"
  "storage_remove cleanup_refused_world h ps = Inr (Some ''Permission denied'')"
  "pdf_load cleanup_refused_world = demo_load"
  "pdf_save cleanup_refused_world = demo_save"
  "ftp_access cleanup_refused_world h host user password secure = None"
  "ftp_uploadFrom cleanup_refused_world h b name = None"
  "buffer_from_utf8 cleanup_refused_world = demo_buffer_from"
  by (simp_all add: cleanup_refused_world_def demo_world_def)

lemma cleanup_refused_run:
  "post_merge_and_upload demo_config cleanup_refused_world demo_upload_request idle
     = (\<lparr>res_status = 200,
          res_body = UploadBody 5 5 True (JStr ''o17.pdf'') (JStr ''o17.xml'')\<rparr>,
        merged_state\<lparr>events := events merged_state @
          [FtpAccess (JStr ''ftp.example'') (JStr ''printer'') (JStr ''pw'') False,
           FtpUploadFrom [1, 2, 3, 4, 5] (JStr ''o17.pdf''),
           FtpUploadFrom (map (\<lambda>c. of_nat (of_char c)) ''<job/>'') (JStr ''o17.xml''),
           FtpClose, Remove demo_paths]\<rparr>)"
proof -
  have opened: "ftp_session_opens demo_config cleanup_refused_world demo_upload_request idle
                  [1, 2, 3, 4, 5] 5 merged_state"
    by (rule demo_opens) (simp_all add: cleanup_refused_fields demo_upload_fields)
  show ?thesis
    unfolding opened_run [OF opened]
    by (simp add: ftp_block_def Let_def cleanup_refused_fields demo_upload_fields emit_def)
qed

text \<open>
  What the removal of the batch files does after such a delivery: the answer is the same
  success in every case, and a warning is logged exactly when the removal throws. An
  \<^verbatim>\<open>error\<close> the removal resolves with is never looked at.
\<close>

lemma cleanup_warns_only_when_thrown:
  fixes req :: request and w :: world and s1 :: state and mergedBytes xmlBytes :: bytes
  defines "ftp \<equiv> js_get (body req) ''ftp''"
    and "pdfFilename \<equiv> js_get (body req) ''pdfFilename''"
    and "xmlContent \<equiv> js_get (body req) ''xmlContent''"
    and "xmlFilename \<equiv> js_get (body req) ''xmlFilename''"
    and "storagePaths \<equiv> elems (js_get (body req) ''storagePaths'')"
  defines "access \<equiv> FtpAccess (js_get ftp ''host'') (js_get ftp ''user'')
                      (js_get ftp ''password'') False"
  defines "sent \<equiv> [access, FtpUploadFrom mergedBytes pdfFilename]
                    @ (if truthy xmlContent \<and> truthy xmlFilename
                       then [FtpUploadFrom xmlBytes xmlFilename] else [])"
  assumes opened: "ftp_session_opens cfg w req s mergedBytes pageCount s1"
    and primary: "ftp_uploadFrom w (events s1 @ [access]) mergedBytes pdfFilename = None"
    and sidecar:
      "truthy xmlContent \<and> truthy xmlFilename \<longrightarrow>
         buffer_from_utf8 w xmlContent = Inr xmlBytes
         \<and> ftp_uploadFrom w (events s1 @ [access, FtpUploadFrom mergedBytes pdfFilename])
               xmlBytes xmlFilename = None"
  shows "fst (post_merge_and_upload cfg w req s)
           = \<lparr>res_status = 200,
              res_body = UploadBody (length mergedBytes) pageCount True pdfFilename
                (if truthy xmlContent \<and> truthy xmlFilename then xmlFilename else JNull)\<rparr>
       \<and> list_ex is_warning (new_events s1 (snd (post_merge_and_upload cfg w req s)))
           = isl (storage_remove w (events s1 @ sent @ [FtpClose]) storagePaths)"
  using successful_delivery_run [OF opened, where xmlBytes = xmlBytes] primary sidecar
  unfolding ftp_def pdfFilename_def xmlContent_def xmlFilename_def access_def sent_def
    storagePaths_def
  by (auto simp: new_events_def split: sum.splits)

text \<open>
  C6 at a removal that fails by resolving with an \<^verbatim>\<open>error\<close>: the answer is the success
  it would have been, and nothing is warned.
\<close>

theorem cleanup_error_not_warned:
  "storage_remove cleanup_refused_world
       (events merged_state @
          [FtpAccess (JStr ''ftp.example'') (JStr ''printer'') (JStr ''pw'') False,
           FtpUploadFrom [1, 2, 3, 4, 5] (JStr ''o17.pdf''),
           FtpUploadFrom (map (\<lambda>c. of_nat (of_char c)) ''<job/>'') (JStr ''o17.xml''),
           FtpClose]) demo_paths
     = Inr (Some ''Permission denied'')
   \<and> fst (post_merge_and_upload demo_config cleanup_refused_world demo_upload_request idle)
       = \<lparr>res_status = 200,
          res_body = UploadBody 5 5 True (JStr ''o17.pdf'') (JStr ''o17.xml'')\<rparr>
   \<and> \<not> list_ex is_warning
         (events (snd (post_merge_and_upload demo_config cleanup_refused_world
                         demo_upload_request idle)))"
  by (simp add: cleanup_refused_run cleanup_refused_fields merged_state_def)


section \<open>Variables in scope during a merge\<close>

lemma holds_from_append:
  "holds_from P sc (ms @ ns) = (holds_from P sc ms \<and> holds_from P (foldl mem_step sc ms) ns)"
  by (induction ms arbitrary: sc) (auto elim: holds_from.elims)

lemma always_append:
  "always P (ms @ ns) = (always P ms \<and> holds_from P (scope_after ms) ns)"
  by (simp add: always_def scope_after_def holds_from_append)

lemma always_prefixes: "always P ms = (\<forall>n \<le> length ms. P (scope_after (take n ms)))"
proof -
  have "holds_from P sc ms = (\<forall>n \<le> length ms. P (foldl mem_step sc (take n ms)))" for sc
  proof (induction ms arbitrary: sc)
    case Nil
    then show ?case by simp
  next
    case (Cons m ms)
    show ?case
    proof
      assume h: "holds_from P sc (m # ms)"
      show "\<forall>n \<le> length (m # ms). P (foldl mem_step sc (take n (m # ms)))"
      proof (intro allI impI)
        fix n assume "n \<le> length (m # ms)"
        then show "P (foldl mem_step sc (take n (m # ms)))"
          using h Cons.IH [of "mem_step sc m"] by (cases n) auto
      qed
    next
      assume a: "\<forall>n \<le> length (m # ms). P (foldl mem_step sc (take n (m # ms)))"
      have "P sc" using a [rule_format, of 0] by simp
      moreover have "\<forall>n \<le> length ms. P (foldl mem_step (mem_step sc m) (take n ms))"
      proof (intro allI impI)
        fix n assume "n \<le> length ms"
        then show "P (foldl mem_step (mem_step sc m) (take n ms))"
          using a [rule_format, of "Suc n"] by simp
      qed
      ultimately show "holds_from P sc (m # ms)" using Cons.IH [of "mem_step sc m"] by simp
    qed
  qed
  then show ?thesis by (simp add: always_def scope_after_def)
qed

lemma merge_step_mem:
  assumes "always bounded (memlog s)"
    and "scope_after (memlog s) = [[(''mergedPdf'', VDoc), (''firstBuffer'', VBuffer fb)]]"
  shows "always bounded (memlog (snd (merge_step w ps i d s)))
       \<and> (\<forall>d'. fst (merge_step w ps i d s) = Inr d' \<longrightarrow>
            scope_after (memlog (snd (merge_step w ps i d s)))
              = [[(''mergedPdf'', VDoc), (''firstBuffer'', VBuffer fb)]])"
  using assms downloadBatch_snd [of w "js_nth ps i" "note_mem BlockEnter s"]
  by (auto simp: merge_step_def copyPages_all Let_def always_append scope_after_def
      bounded_def docs_in_def buffers_in_def split: prod.splits sum.splits)

lemma inline_step_mem:
  assumes "always bounded_zeroed (memlog s)"
    and "scope_after (memlog s)
           = [[(''mergedPdf'', VDoc), (''firstBuffer'', VBuffer (replicate k 0))]]"
  shows "always bounded_zeroed (memlog (snd (inline_step w ps i d s)))
       \<and> (\<forall>d'. fst (inline_step w ps i d s) = Inr d' \<longrightarrow>
            scope_after (memlog (snd (inline_step w ps i d s)))
              = [[(''mergedPdf'', VDoc), (''firstBuffer'', VBuffer (replicate k 0))]])"
  using assms downloadBatch_snd [of w "js_nth ps i" "note_mem BlockEnter s"]
  by (auto simp: inline_step_def copyPages_all Let_def always_append scope_after_def
      bounded_zeroed_def docs_in_def buffers_in_def raw_in_def raw_def
      split: prod.splits sum.splits)


lemma merge_loop_mem:
  assumes "always bounded (memlog s)"
    and "scope_after (memlog s) = [[(''mergedPdf'', VDoc), (''firstBuffer'', VBuffer fb)]]"
  shows "always bounded (memlog (snd (merge_loop w ps i d s)))
       \<and> (\<forall>d'. fst (merge_loop w ps i d s) = Inr d' \<longrightarrow>
            scope_after (memlog (snd (merge_loop w ps i d s)))
              = [[(''mergedPdf'', VDoc), (''firstBuffer'', VBuffer fb)]])"
  using assms
proof (induction w ps i d s rule: merge_loop.induct)
  case (1 w ps i d s)
  show ?case
  proof (cases "i < length ps")
    case False
    then show ?thesis using "1.prems" by simp
  next
    case True
    obtain r s' where st: "merge_step w ps i d s = (r, s')" by (cases "merge_step w ps i d s")
    have m: "always bounded (memlog s')"
      "\<And>d'. r = Inr d' \<Longrightarrow>
         scope_after (memlog s') = [[(''mergedPdf'', VDoc), (''firstBuffer'', VBuffer fb)]]"
      using merge_step_mem [OF "1.prems", of w ps i d] st by simp_all
    show ?thesis
    proof (cases r)
      case (Inl e)
      then show ?thesis using True st m by simp
    next
      case (Inr d')
      have eq: "merge_loop w ps i d s = merge_loop w ps (Suc i) d' s'"
        using True st Inr by simp
      show ?thesis
        unfolding eq using "1.IH" [OF True st [symmetric] Inr m(1) m(2) [OF Inr]] .
    qed
  qed
qed

lemma mergeBatches_mem:
  assumes "memlog s = []"
  shows "always bounded (memlog (snd (mergeBatches w ps s)))"
proof -
  obtain r s1 where dl: "downloadBatch w (js_nth ps 0) s = (r, s1)"
    by (cases "downloadBatch w (js_nth ps 0) s")
  have s1: "memlog s1 = []" using downloadBatch_snd [of w "js_nth ps 0" s] dl assms by simp
  show ?thesis
  proof (cases r)
    case (Inl e)
    then show ?thesis using dl s1
      by (simp add: mergeBatches_def always_def bounded_def docs_in_def buffers_in_def)
  next
    case (Inr fb)
    show ?thesis
    proof (cases "pdf_load w fb")
      case (Inl e)
      then show ?thesis using dl s1 Inr
        by (simp add: mergeBatches_def always_def bounded_def docs_in_def buffers_in_def)
    next
      case (Inr base)
      let ?s3 = "note_mem (Declare ''mergedPdf'' VDoc)
                   (note_mem (Declare ''firstBuffer'' (VBuffer fb)) s1)"
      have a: "always bounded (memlog ?s3)"
        using s1 by (simp add: always_def bounded_def docs_in_def buffers_in_def)
      have b: "scope_after (memlog ?s3) = [[(''mergedPdf'', VDoc), (''firstBuffer'', VBuffer fb)]]"
        using s1 by (simp add: scope_after_def)
      note lp = merge_loop_mem [OF a b, of w ps 1 base]
      obtain r2 s2 where ml: "merge_loop w ps 1 base ?s3 = (r2, s2)"
        by (cases "merge_loop w ps 1 base ?s3")
      show ?thesis
        using dl \<open>r = Inr fb\<close> Inr ml lp
        by (auto simp: mergeBatches_def always_append scope_after_def bounded_def docs_in_def
            buffers_in_def split: sum.splits)
    qed
  qed
qed

lemma inline_loop_mem:
  assumes "always bounded_zeroed (memlog s)"
    and "scope_after (memlog s) = [[(''mergedPdf'', VDoc), (''firstBuffer'', VBuffer (replicate k 0))]]"
  shows "always bounded_zeroed (memlog (snd (inline_loop w ps i d s)))
       \<and> (\<forall>d'. fst (inline_loop w ps i d s) = Inr d' \<longrightarrow>
            scope_after (memlog (snd (inline_loop w ps i d s)))
              = [[(''mergedPdf'', VDoc), (''firstBuffer'', VBuffer (replicate k 0))]])"
  using assms
proof (induction w ps i d s rule: inline_loop.induct)
  case (1 w ps i d s)
  show ?case
  proof (cases "i < length ps")
    case False
    then show ?thesis using "1.prems" by simp
  next
    case True
    obtain r s' where st: "inline_step w ps i d s = (r, s')" by (cases "inline_step w ps i d s")
    have m: "always bounded_zeroed (memlog s')"
      "\<And>d'. r = Inr d' \<Longrightarrow>
         scope_after (memlog s') = [[(''mergedPdf'', VDoc), (''firstBuffer'', VBuffer (replicate k 0))]]"
      using inline_step_mem [OF "1.prems", of w ps i d] st by simp_all
    show ?thesis
    proof (cases r)
      case (Inl e)
      then show ?thesis using True st m by simp
    next
      case (Inr d')
      have eq: "inline_loop w ps i d s = inline_loop w ps (Suc i) d' s'"
        using True st Inr by simp
      show ?thesis
        unfolding eq using "1.IH" [OF True st [symmetric] Inr m(1) m(2) [OF Inr]] .
    qed
  qed
qed

lemma inline_merge_mem:
  assumes "memlog s = []"
  shows "always bounded_zeroed (memlog (snd (inline_merge w ps s)))"
proof -
  obtain r s1 where dl: "downloadBatch w (js_nth ps 0) s = (r, s1)"
    by (cases "downloadBatch w (js_nth ps 0) s")
  have s1: "memlog s1 = []" using downloadBatch_snd [of w "js_nth ps 0" s] dl assms by simp
  show ?thesis
  proof (cases r)
    case (Inl e)
    then show ?thesis using dl s1
      by (simp add: inline_merge_def always_def bounded_zeroed_def docs_in_def buffers_in_def raw_in_def raw_def)
  next
    case (Inr fb)
    show ?thesis
    proof (cases "pdf_load w fb")
      case (Inl e)
      then show ?thesis using dl s1 Inr
        by (simp add: inline_merge_def always_def bounded_zeroed_def docs_in_def buffers_in_def raw_in_def raw_def)
    next
      case (Inr base)
      let ?s3 = "note_mem (Fill ''firstBuffer'') (note_mem (Declare ''mergedPdf'' VDoc)
                   (note_mem (Declare ''firstBuffer'' (VBuffer fb)) s1))"
      have a: "always bounded_zeroed (memlog ?s3)"
        using s1 by (simp add: always_def bounded_zeroed_def docs_in_def buffers_in_def raw_in_def raw_def)
      have b: "scope_after (memlog ?s3)
                 = [[(''mergedPdf'', VDoc), (''firstBuffer'', VBuffer (replicate (length fb) 0))]]"
        using s1 by (simp add: scope_after_def)
      note lp = inline_loop_mem [OF a b, of w ps 1 base]
      obtain r2 s2 where ml: "inline_loop w ps 1 base ?s3 = (r2, s2)"
        by (cases "inline_loop w ps 1 base ?s3")
      show ?thesis
        using dl \<open>r = Inr fb\<close> Inr ml lp
        by (auto simp: inline_merge_def always_append scope_after_def bounded_zeroed_def
            docs_in_def buffers_in_def raw_in_def raw_def split: sum.splits)
    qed
  qed
qed

text \<open>
  C2, amended. From the start of a merge to its return or its throw, at most two parsed
  documents (\<^verbatim>\<open>mergedPdf\<close> and, inside an iteration, \<^verbatim>\<open>batchPdf\<close>) and at most two
  downloaded buffers (\<^verbatim>\<open>firstBuffer\<close> and, inside an iteration, \<^verbatim>\<open>batchBuffer\<close>) are
  in scope at any instant, whatever the number of batches. In \<^verbatim>\<open>src/index.js\<close> each
  buffer is zero-filled right after its batch is parsed, so at most one buffer in scope
  holds downloaded bytes. \<^verbatim>\<open>mergeBatches\<close> leaves the buffers as they are.
\<close>

theorem at_most_two_documents_in_scope:
  assumes "memlog s = []"
  shows "always bounded (memlog (snd (mergeBatches w ps s)))
       \<and> always bounded_zeroed (memlog (snd (inline_merge w ps s)))"
  using mergeBatches_mem [OF assms] inline_merge_mem [OF assms] by simp


theorem at_most_two_documents_in_scope_witness:
  "memlog idle = []
   \<and> always bounded (memlog (snd (mergeBatches demo_world demo_paths idle)))
   \<and> always bounded_zeroed (memlog (snd (inline_merge demo_world demo_paths idle)))
   \<and> docs_in (scope_after (take 5 (memlog (snd (mergeBatches demo_world demo_paths idle))))) = 2"
proof -
  have h: "memlog idle = []"
    by (simp add: idle_def)
  have d: "docs_in (scope_after (take 5 (memlog (snd (mergeBatches demo_world demo_paths idle)))))
             = 2"
    by (simp add: demo_merge [OF demo_world_fields(2,5,6)] idle_def scope_after_def docs_in_def)
  show ?thesis
    using h d at_most_two_documents_in_scope [OF h, of demo_world demo_paths] by simp
qed

text \<open>
  C2 as stated fails in \<^verbatim>\<open>mergeBatches\<close>: the first batch's buffer is still in scope,
  with the bytes that were downloaded, when the second batch is about to be fetched and
  when the merge returns, long after the first batch was parsed; and once the second
  batch is parsed two such buffers are in scope.
\<close>

theorem first_buffer_kept_after_parsing:
  "scope_after (take 3 (memlog (snd (mergeBatches demo_world demo_paths idle))))
     = [[], [(''mergedPdf'', VDoc), (''firstBuffer'', VBuffer [1, 2, 3])]]
   \<and> scope_after (take 5 (memlog (snd (mergeBatches demo_world demo_paths idle))))
     = [[(''batchPdf'', VDoc), (''batchBuffer'', VBuffer [4, 5])],
        [(''mergedPdf'', VDoc), (''firstBuffer'', VBuffer [1, 2, 3])]]
   \<and> scope_after (memlog (snd (mergeBatches demo_world demo_paths idle)))
     = [[(''mergedBytes'', VBytes [1, 2, 3, 4, 5]), (''mergedPdf'', VNull),
         (''firstBuffer'', VBuffer [1, 2, 3])]]
   \<and> raw (VBuffer [1, 2, 3])
   \<and> \<not> always bounded_zeroed (memlog (snd (mergeBatches demo_world demo_paths idle)))"
  by (simp add: demo_merge [OF demo_world_fields(2,5,6)] idle_def scope_after_def always_def
      bounded_zeroed_def docs_in_def buffers_in_def raw_in_def raw_def)

end
